theory Spec2Isabelle
  imports Complex_Main "HOL-Library.Word"
begin

section \<open>Values of the placement payload\<close>

text \<open>
  The placements reach the server as parsed JSON (\<^verbatim>\<open>JSON.parse(req.body.fields)\<close>), so the
  properties that the engine inspects with JavaScript's dynamic operators (\<^verbatim>\<open>!v\<close>,
  \<^verbatim>\<open>v || 0\<close>, \<^verbatim>\<open>v >= n\<close>, \<^verbatim>\<open>pages[v]\<close>) are modelled as JavaScript values: an absent
  property reads as \<^verbatim>\<open>undefined\<close>. Numbers are exact reals (IEEE rounding is not modelled);
  \<^verbatim>\<open>NaN\<close> is a value of its own. Objects and arrays are not modelled.
\<close>

datatype jsval = JUndefined | JNull | JBool bool | JNum real | JNaN | JStr string

text \<open>\<^verbatim>\<open>ToBoolean\<close>: what \<^verbatim>\<open>!v\<close> and \<^verbatim>\<open>v || w\<close> test.\<close>

fun truthy :: "jsval \<Rightarrow> bool" where
  "truthy JUndefined = False"
| "truthy JNull = False"
| "truthy (JBool b) = b"
| "truthy (JNum r) = (r \<noteq> 0)"
| "truthy JNaN = False"
| "truthy (JStr s) = (s \<noteq> [])"

definition js_or :: "jsval \<Rightarrow> jsval \<Rightarrow> jsval" where
  "js_or a b = (if truthy a then a else b)"

text \<open>
  One placement. The engine reads \<^verbatim>\<open>type\<close>, \<^verbatim>\<open>pageNumber\<close>, \<^verbatim>\<open>value\<close> and the four
  fractions; every other property of the submitted object (\<^verbatim>\<open>id\<close>, or a page carried under
  another name) lives in the extension part of the record and is never read.
\<close>

record field =
  type :: string
  pageNumber :: jsval
  "value" :: jsval
  xPct :: real
  yPct :: real
  wPct :: real
  hPct :: real

section \<open>Coordinate normalizer\<close>

text \<open>
  The box of \<^verbatim>\<open>normalizeCoordinates\<close>, with its formulas read in exact arithmetic. The
  drawing calls of the engine are stated with these values; the binary64 values that the
  engine computes for them are \<open>normalizeCoordinates64\<close> below.
\<close>

record coords =
  x :: real
  y :: real
  width :: real
  height :: real

definition normalizeCoordinates :: "'a field_scheme \<Rightarrow> real \<Rightarrow> real \<Rightarrow> coords" where
  "normalizeCoordinates field pdfWidth pdfHeight =
     \<lparr> x = xPct field * pdfWidth,
       y = (1 - yPct field - hPct field) * pdfHeight,
       width = wPct field * pdfWidth,
       height = hPct field * pdfHeight \<rparr>"

text \<open>The point between two boxes at parameter \<open>t\<close>, used to state first-degree dependence.\<close>

definition mix :: "real \<Rightarrow> coords \<Rightarrow> coords \<Rightarrow> coords" where
  "mix t c d =
     \<lparr> x = t * x c + (1 - t) * x d,
       y = t * y c + (1 - t) * y d,
       width = t * width c + (1 - t) * width d,
       height = t * height c + (1 - t) * height d \<rparr>"

section \<open>Binary64 arithmetic\<close>

text \<open>
  The definition above reads the arithmetic of \<^verbatim>\<open>normalizeCoordinates\<close> exactly. The engine
  computes in IEEE-754 binary64: every \<^verbatim>\<open>-\<close> and \<^verbatim>\<open>*\<close> gives the exact result rounded to the
  nearest binary64 number, ties to the even significand. A finite binary64 number is the real
  it denotes; \<open>None\<close> is a result that is not a finite number (an infinity or \<^verbatim>\<open>NaN\<close>). The
  sign of zero is not kept.
\<close>

definition pow2 :: "int \<Rightarrow> real" where
  "pow2 k = (if 0 \<le> k then 2 ^ nat k else 1 / 2 ^ nat (- k))"

text \<open>The binary exponent of a positive real: \<open>pow2 (expo v) \<le> v < 2 * pow2 (expo v)\<close>.\<close>

function expo :: "real \<Rightarrow> int" where
  "expo v = (if v \<le> 0 then 0
             else if 2 \<le> v then expo (v / 2) + 1
             else if v < 1 then expo (v * 2) - 1
             else 0)"
  by pat_completeness auto
termination
proof (relation "measure (\<lambda>v. if 1 \<le> v then nat \<lfloor>log 2 v\<rfloor> else nat \<lceil>- log 2 v\<rceil>)")
  show "wf (measure (\<lambda>v. if 1 \<le> v then nat \<lfloor>log 2 v\<rfloor> else nat \<lceil>- log 2 v\<rceil>))"
    by simp
next
  fix v :: real
  assume a: "\<not> v \<le> 0" "2 \<le> v"
  have "log 2 (v / 2) = log 2 v - 1" using a by (simp add: log_divide)
  moreover have "1 \<le> log 2 v" using a by (simp add: le_log_iff)
  ultimately show
    "(v / 2, v) \<in> measure (\<lambda>v. if 1 \<le> v then nat \<lfloor>log 2 v\<rfloor> else nat \<lceil>- log 2 v\<rceil>)"
    using a by auto
next
  fix v :: real
  assume a: "\<not> v \<le> 0" "\<not> 2 \<le> v" "v < 1"
  have l: "log 2 (v * 2) = log 2 v + 1" using a by (simp add: log_mult)
  have n: "log 2 v < 0" using a by simp
  then have c: "1 \<le> \<lceil>- log 2 v\<rceil>" by linarith
  show "(v * 2, v) \<in> measure (\<lambda>v. if 1 \<le> v then nat \<lfloor>log 2 v\<rfloor> else nat \<lceil>- log 2 v\<rceil>)"
  proof (cases "1 \<le> v * 2")
    case True
    have "\<lfloor>log 2 v + 1\<rfloor> \<le> 0" using n by linarith
    then show ?thesis using a True c by (simp add: l)
  next
    case False
    have "\<lceil>- (log 2 v + 1)\<rceil> = \<lceil>- log 2 v\<rceil> - 1" by linarith
    then show ?thesis using a False c by (simp add: l)
  qed
qed

declare expo.simps [simp del]

text \<open>The nearest integer, a tie going to the even one.\<close>

definition nearest :: "real \<Rightarrow> int" where
  "nearest q =
     (let f = \<lfloor>q\<rfloor>; d = q - of_int f
      in if d < 1 / 2 then f else if 1 / 2 < d then f + 1 else if even f then f else f + 1)"

text \<open>
  Rounding to binary64: 53 significant bits, the exponent not below \<open>-1022\<close> (so the numbers
  under \<open>2 ^ -1022\<close> are the subnormal ones, spaced \<open>2 ^ -1074\<close> apart), and overflow to an
  infinity when the rounded magnitude reaches \<open>2 ^ 1024\<close>.
\<close>

definition round64 :: "real \<Rightarrow> real option" where
  "round64 v =
     (let u = pow2 (max (expo \<bar>v\<bar>) (- 1022) - 52); r = of_int (nearest (v / u)) * u
      in if \<bar>r\<bar> < 2 ^ 1024 then Some r else None)"

text \<open>The operations \<^verbatim>\<open>a - b\<close> and \<^verbatim>\<open>a * b\<close>; an operand that is not finite gives such a result.\<close>

definition minus64 :: "real option \<Rightarrow> real option \<Rightarrow> real option" where
  "minus64 a b =
     (case a of None \<Rightarrow> None
      | Some u \<Rightarrow> (case b of None \<Rightarrow> None | Some v \<Rightarrow> round64 (u - v)))"

definition times64 :: "real option \<Rightarrow> real option \<Rightarrow> real option" where
  "times64 a b =
     (case a of None \<Rightarrow> None
      | Some u \<Rightarrow> (case b of None \<Rightarrow> None | Some v \<Rightarrow> round64 (u * v)))"

text \<open>
  \<^verbatim>\<open>normalizeCoordinates\<close> as the engine computes it, on a placement whose fractions are finite
  numbers and a finite page size.
\<close>

record coords64 =
  x64 :: "real option"
  y64 :: "real option"
  width64 :: "real option"
  height64 :: "real option"

definition normalizeCoordinates64 :: "'a field_scheme \<Rightarrow> real \<Rightarrow> real \<Rightarrow> coords64" where
  "normalizeCoordinates64 field pdfWidth pdfHeight =
     \<lparr> x64 = times64 (Some (xPct field)) (Some pdfWidth),
       y64 = times64 (minus64 (minus64 (Some 1) (Some (yPct field))) (Some (hPct field)))
               (Some pdfHeight),
       width64 = times64 (Some (wPct field)) (Some pdfWidth),
       height64 = times64 (Some (hPct field)) (Some pdfHeight) \<rparr>"

text \<open>A computed value that is finite and at most \<open>eps\<close> away from \<open>v\<close>.\<close>

definition close_to :: "real option \<Rightarrow> real \<Rightarrow> real \<Rightarrow> bool" where
  "close_to r v eps = (case r of None \<Rightarrow> False | Some u \<Rightarrow> \<bar>u - v\<bar> \<le> eps)"

text \<open>
  The binary64 numbers written \<^verbatim>\<open>0.1\<close>, \<^verbatim>\<open>0.3\<close>, \<^verbatim>\<open>0.05\<close> and \<^verbatim>\<open>0.95\<close>, and a placement
  with given fractions.
\<close>

definition d01 :: real where "d01 = 3602879701896397 / 36028797018963968"

definition d03 :: real where "d03 = 5404319552844595 / 18014398509481984"

definition d005 :: real where "d005 = 3602879701896397 / 72057594037927936"

definition d095 :: real where "d095 = 4278419646001971 / 4503599627370496"

definition boxed_at :: "real \<Rightarrow> real \<Rightarrow> real \<Rightarrow> real \<Rightarrow> field" where
  "boxed_at a b c d =
     \<lparr> type = ''text'', pageNumber = JNum 0, value = JNull,
       xPct = a, yPct = b, wPct = c, hPct = d \<rparr>"

section \<open>JavaScript operations used by the engine\<close>

type_synonym bytes = "8 word list"

text \<open>\<^verbatim>\<open>s.startsWith(p)\<close>.\<close>

definition startsWith :: "string \<Rightarrow> string \<Rightarrow> bool" where
  "startsWith s p = (take (length p) s = p)"

text \<open>
  \<^verbatim>\<open>s.split(sep)\<close>: the pieces between the occurrences of \<open>sep\<close>, scanned from the left
  without overlap; an empty separator splits into the single characters.
\<close>

function split_from :: "string \<Rightarrow> string \<Rightarrow> string \<Rightarrow> string list" where
  "split_from sep cur [] = [cur]"
| "split_from sep cur (c # cs) =
     (if sep \<noteq> [] \<and> startsWith (c # cs) sep
      then cur # split_from sep [] (drop (length sep) (c # cs))
      else split_from sep (cur @ [c]) cs)"
  by pat_completeness auto
termination
  by (relation "measure (\<lambda>(sep, cur, s). length s)") auto

definition split :: "string \<Rightarrow> string \<Rightarrow> string list" where
  "split s sep = (if sep = [] then map (\<lambda>c. [c]) s else split_from sep [] s)"

text \<open>\<^verbatim>\<open>xs[i]\<close> on an array of strings: \<^verbatim>\<open>undefined\<close> (here \<open>None\<close>) out of range.\<close>

definition item :: "'a list \<Rightarrow> nat \<Rightarrow> 'a option" where
  "item xs i = (if i < length xs then Some (xs ! i) else None)"

text \<open>The decimal numeral of a natural number: the property key of an array index.\<close>

function decimal :: "nat \<Rightarrow> string" where
  "decimal n = (if n < 10 then [''0123456789'' ! n]
                else decimal (n div 10) @ [''0123456789'' ! (n mod 10)])"
  by pat_completeness auto
termination
  by (relation "measure id") auto

declare decimal.simps [simp del]

text \<open>
  \<^verbatim>\<open>ToNumber\<close>, with \<open>None\<close> for \<^verbatim>\<open>NaN\<close>. The conversion of a string is ECMAScript's
  \<^verbatim>\<open>StringToNumber\<close>, which is taken as a parameter \<open>stn\<close>.
\<close>

fun ToNumber :: "(string \<Rightarrow> real option) \<Rightarrow> jsval \<Rightarrow> real option" where
  "ToNumber stn JUndefined = None"
| "ToNumber stn JNull = Some 0"
| "ToNumber stn (JBool b) = Some (if b then 1 else 0)"
| "ToNumber stn (JNum r) = Some r"
| "ToNumber stn JNaN = None"
| "ToNumber stn (JStr s) = stn s"

text \<open>\<^verbatim>\<open>v >= n\<close> for an array length \<open>n\<close>: false as soon as \<open>v\<close> converts to \<^verbatim>\<open>NaN\<close>.\<close>

definition js_ge :: "(string \<Rightarrow> real option) \<Rightarrow> jsval \<Rightarrow> nat \<Rightarrow> bool" where
  "js_ge stn v n = (case ToNumber stn v of None \<Rightarrow> False | Some r \<Rightarrow> real n \<le> r)"

text \<open>
  \<^verbatim>\<open>pages[v]\<close> on an array of length \<open>n\<close>: the position of the element read, or \<open>None\<close>
  when the read gives \<^verbatim>\<open>undefined\<close>. Only a key that is the decimal numeral of an index below
  \<open>n\<close> reads an element: a negative or fractional number, a boolean, \<^verbatim>\<open>null\<close> do not.
\<close>

fun element :: "nat \<Rightarrow> jsval \<Rightarrow> nat option" where
  "element n (JNum r) =
     (if 0 \<le> r \<and> r = of_int \<lfloor>r\<rfloor> \<and> r < real n then Some (nat \<lfloor>r\<rfloor>) else None)"
| "element n (JStr s) = List.find (\<lambda>i. decimal i = s) [0..<n]"
| "element n v = None"

section \<open>The document and the collaborators of the engine\<close>

text \<open>
  The engine draws through \<^verbatim>\<open>pdf-lib\<close>. A loaded document is modelled by what the engine
  can observe and change: the bytes it was loaded from, its pages with their sizes and the
  drawing calls received so far (in order), the images and fonts embedded in it, and the
  modification date that \<^verbatim>\<open>PDFDocument.load\<close> stamps on it (with its default options the
  library sets the date to the time of the load, and the serializer writes it out). The
  arguments of a drawing call are kept as the source passes them:
  \<^item> \<open>DrawRectangle x y width height borderColor borderWidth opacity\<close>
  \<^item> \<open>DrawImage image x y width height\<close>
  \<^item> \<open>DrawText text x y size font color\<close>
  \<^item> \<open>DrawCircle x y size color borderWidth borderColor backgroundColor\<close>
\<close>

datatype color = rgb real real real

datatype font = Helvetica

datatype 'img drawop =
    DrawRectangle real real real real color real real
  | DrawImage 'img real real real real
  | DrawText string real real real font color
  | DrawCircle real real real color real color color

record 'img page =
  getSize :: "real \<times> real"
  ops :: "'img drawop list"

record 'img document =
  source :: bytes
  pages :: "'img page list"
  images :: "'img list"
  fonts :: "font list"
  modificationDate :: nat

text \<open>A drawing call on page \<open>i\<close> of the document appends to that page's calls.\<close>

definition draw :: "'img document \<Rightarrow> nat \<Rightarrow> 'img drawop \<Rightarrow> 'img document" where
  "draw pdfDoc i d =
     pdfDoc\<lparr>pages := (pages pdfDoc)[i := (pages pdfDoc ! i)\<lparr>ops := ops (pages pdfDoc ! i) @ [d]\<rparr>]\<rparr>"

definition embed :: "'img document \<Rightarrow> 'img \<Rightarrow> 'img document" where
  "embed pdfDoc pdfImage = pdfDoc\<lparr>images := images pdfDoc @ [pdfImage]\<rparr>"

definition embedFont :: "'img document \<Rightarrow> font \<Rightarrow> 'img document" where
  "embedFont pdfDoc f = pdfDoc\<lparr>fonts := fonts pdfDoc @ [f]\<rparr>"

text \<open>The record handed to the audit collection (\<^verbatim>\<open>AuditSchema\<close>; the list is its \<^verbatim>\<open>fields\<close>).\<close>

record 'f audit_entry =
  pdfName :: string
  originalHash :: string
  signedHash :: string
  auditFields :: "'f list"

text \<open>
  What can be thrown inside \<^verbatim>\<open>injectFields\<close>, by cause; its \<^verbatim>\<open>catch\<close> rethrows every one
  of them as \<^verbatim>\<open>PDF injection failed: ...\<close>, which is \<open>InjectionFailed\<close>.
\<close>

datatype error =
    ReadError | LoadError | TypeError | EmbedError | EncodeError | SaveError | WriteError
  | InjectionFailed error

text \<open>
  The code outside the repository that the engine calls, as parameters. Each is a function
  of its arguments; where the library can throw, \<open>None\<close> (or \<open>False\<close>) is the throw.
  \<^item> \<open>StringToNumber\<close>: ECMAScript's conversion of a string to a number (\<open>None\<close> is \<^verbatim>\<open>NaN\<close>).
  \<^item> \<open>sha256\<close>: \<^verbatim>\<open>crypto.createHash('sha256').update(b).digest('hex')\<close>.
  \<^item> \<open>load\<close>: \<^verbatim>\<open>PDFDocument.load\<close> followed by \<^verbatim>\<open>getPages\<close>, giving the page sizes.
  \<^item> \<open>fromBase64\<close>: \<^verbatim>\<open>Buffer.from(s, 'base64')\<close>, which never throws.
  \<^item> \<open>embedPng\<close>, \<open>embedJpg\<close>: the image decoders of the library.
  \<^item> \<open>encodes\<close>: whether \<^verbatim>\<open>drawText\<close> can encode the text in the standard font.
  \<^item> \<open>save\<close>: the serializer. \<open>canWrite\<close>: whether \<^verbatim>\<open>fs.writeFile\<close> succeeds on a path.
  \<^item> \<open>auditSave\<close>: creating and saving the audit document; \<open>Some msg\<close> is a failure with
    that message.
  \<^item> \<open>clock\<close>: the time, in seconds, that the library reads when the run loads the document.
\<close>

record ('img, 'f) env =
  StringToNumber :: "string \<Rightarrow> real option"
  sha256 :: "bytes \<Rightarrow> string"
  load :: "bytes \<Rightarrow> (real \<times> real) list option"
  fromBase64 :: "string \<Rightarrow> bytes"
  embedPng :: "bytes \<Rightarrow> 'img option"
  embedJpg :: "bytes \<Rightarrow> 'img option"
  encodes :: "string \<Rightarrow> bool"
  save :: "'img document \<Rightarrow> bytes option"
  canWrite :: "string \<Rightarrow> bool"
  auditSave :: "'f audit_entry \<Rightarrow> string option"
  clock :: nat

section \<open>The injection engine\<close>

text \<open>
  \<^verbatim>\<open>parseBase64Image\<close>. A falsy argument and a string without the \<^verbatim>\<open>data:\<close> prefix give
  \<^verbatim>\<open>null\<close> (\<open>Inr None\<close>); a truthy argument that is not a string has no \<^verbatim>\<open>startsWith\<close>
  method, so the call throws. The media type is the second piece of the head at \<^verbatim>\<open>:\<close>,
  \<^verbatim>\<open>undefined\<close> when there is none.
\<close>

record image_data =
  buffer :: bytes
  mime :: "string option"

definition parseBase64Image :: "('img, 'f) env \<Rightarrow> jsval \<Rightarrow> error + image_data option" where
  "parseBase64Image env dataUrl =
     (if \<not> truthy dataUrl then Inr None
      else case dataUrl of
        JStr s \<Rightarrow>
          if \<not> startsWith s ''data:'' then Inr None
          else let parts = split s '';base64,'' in
            if length parts \<noteq> 2 then Inr None
            else Inr (Some \<lparr> buffer = fromBase64 env (parts ! 1),
                              mime = item (split (parts ! 0) '':'') 1 \<rparr>)
      | _ \<Rightarrow> Inl TypeError)"

text \<open>
  \<^verbatim>\<open>injectField\<close>. The page argument is the position of a page of the document, or \<open>None\<close>
  for \<^verbatim>\<open>undefined\<close>, on which \<^verbatim>\<open>page.getSize()\<close> throws. The \<^verbatim>\<open>switch\<close> has no default
  branch. The library's \<^verbatim>\<open>drawText\<close> throws on a text that is not a string or that the font
  cannot encode. Nothing in this function catches.
\<close>

definition injectField ::
  "('img, 'f) env \<Rightarrow> 'img document \<Rightarrow> nat option \<Rightarrow> 'a field_scheme \<Rightarrow> font
     \<Rightarrow> error + 'img document" where
  "injectField env pdfDoc page field fnt =
     (case page of
        None \<Rightarrow> Inl TypeError
      | Some i \<Rightarrow>
          if \<not> i < length (pages pdfDoc) then Inl TypeError
          else
            let pdfWidth = fst (getSize (pages pdfDoc ! i));
                pdfHeight = snd (getSize (pages pdfDoc ! i));
                pdfCoords = normalizeCoordinates field pdfWidth pdfHeight;
                boxed =
                  (if type field = ''radio''
                   then draw pdfDoc i
                          (DrawRectangle (x pdfCoords) (y pdfCoords) (width pdfCoords)
                             (height pdfCoords) (rgb 0.1 0.4 0.8) 1 0.1)
                   else pdfDoc)
            in
              if type field = ''signature'' \<or> type field = ''image'' then
                (case parseBase64Image env (value field) of
                   Inl e \<Rightarrow> Inl e
                 | Inr None \<Rightarrow> Inr boxed
                 | Inr (Some imageData) \<Rightarrow>
                     if mime imageData = Some ''image/png'' then
                       (case embedPng env (buffer imageData) of
                          None \<Rightarrow> Inl EmbedError
                        | Some pdfImage \<Rightarrow>
                            Inr (draw (embed boxed pdfImage) i
                                   (DrawImage pdfImage (x pdfCoords) (y pdfCoords)
                                      (width pdfCoords) (height pdfCoords))))
                     else if mime imageData = Some ''image/jpeg''
                             \<or> mime imageData = Some ''image/jpg'' then
                       (case embedJpg env (buffer imageData) of
                          None \<Rightarrow> Inl EmbedError
                        | Some pdfImage \<Rightarrow>
                            Inr (draw (embed boxed pdfImage) i
                                   (DrawImage pdfImage (x pdfCoords) (y pdfCoords)
                                      (width pdfCoords) (height pdfCoords))))
                     else Inr boxed)
              else if type field = ''text'' \<or> type field = ''date'' then
                (if \<not> truthy (value field) then Inr boxed
                 else case value field of
                   JStr s \<Rightarrow>
                     if encodes env s
                     then Inr (draw boxed i
                                 (DrawText s (x pdfCoords + 2)
                                    (y pdfCoords + height pdfCoords - 10 - 2) 10 fnt (rgb 0 0 0)))
                     else Inl EncodeError
                 | _ \<Rightarrow> Inl TypeError)
              else if type field = ''radio'' then
                (if \<not> truthy (value field) then Inr boxed
                 else Inr (draw boxed i
                             (DrawCircle (x pdfCoords + width pdfCoords / 2)
                                (y pdfCoords + height pdfCoords / 2) (width pdfCoords / 4)
                                (rgb 0 0 1) 1 (rgb 0 0 0.8) (rgb 0 0 1))))
              else Inr boxed)"

text \<open>
  \<^verbatim>\<open>logAuditEntry\<close> catches whatever creating and saving the entry throws and only writes a
  line to the console; the result is that line.
\<close>

definition logAuditEntry ::
  "('img, 'f) env \<Rightarrow> string \<Rightarrow> string \<Rightarrow> string \<Rightarrow> 'f list \<Rightarrow> string list" where
  "logAuditEntry env name h1 h2 fieldsPayload =
     (case auditSave env
             \<lparr>pdfName = name, originalHash = h1, signedHash = h2, auditFields = fieldsPayload\<rparr> of
        None \<Rightarrow> [''[DB] Audit log saved for '' @ name]
      | Some msg \<Rightarrow> [''[DB] Failed to save audit log: '' @ msg])"

text \<open>
  The loop of \<^verbatim>\<open>injectFields\<close> over the placements, with \<open>n\<close> the length of the page array
  taken before the loop. An error of \<^verbatim>\<open>injectField\<close> leaves the loop.
\<close>

fun injectAll ::
  "('img, 'f) env \<Rightarrow> nat \<Rightarrow> font \<Rightarrow> 'img document \<Rightarrow> 'a field_scheme list
     \<Rightarrow> error + 'img document" where
  "injectAll env n fnt pdfDoc [] = Inr pdfDoc"
| "injectAll env n fnt pdfDoc (field # rest) =
     (if js_ge (StringToNumber env) (js_or (pageNumber field) (JNum 0)) n
      then injectAll env n fnt pdfDoc rest
      else case injectField env pdfDoc (element n (js_or (pageNumber field) (JNum 0))) field fnt of
             Inl e \<Rightarrow> Inl e
           | Inr pdfDoc' \<Rightarrow> injectAll env n fnt pdfDoc' rest)"

text \<open>
  A completed run of \<^verbatim>\<open>injectFields\<close>: the path returned, the file system after the write,
  the console lines, and the entry passed to \<^verbatim>\<open>logAuditEntry\<close> (which carries the two hashes).
  The call of \<^verbatim>\<open>logAuditEntry\<close> is not awaited; its console line is placed after the others.
  A run that throws is the error alone: it has written no file, and the \<^verbatim>\<open>console.error\<close>
  line of the \<^verbatim>\<open>catch\<close> is not kept. The file system is a map from paths to contents;
  reading a path that is not there throws.
\<close>

record 'f run =
  returned :: string
  files :: "string \<rightharpoonup> bytes"
  console :: "string list"
  audit :: "'f audit_entry"

definition injectFields ::
  "('img, 'a field_scheme) env \<Rightarrow> (string \<rightharpoonup> bytes) \<Rightarrow> string \<Rightarrow> string
     \<Rightarrow> 'a field_scheme list \<Rightarrow> string \<Rightarrow> error + 'a field_scheme run" where
  "injectFields env fs pdfPath name fieldsPayload outputPath =
     (case fs pdfPath of
        None \<Rightarrow> Inl (InjectionFailed ReadError)
      | Some existingPdfBytes \<Rightarrow>
          (case load env existingPdfBytes of
             None \<Rightarrow> Inl (InjectionFailed LoadError)
           | Some sizes \<Rightarrow>
               let pdfDoc = embedFont
                     \<lparr> source = existingPdfBytes,
                       pages = map (\<lambda>sz. \<lparr>getSize = sz, ops = []\<rparr>) sizes,
                       images = [], fonts = [], modificationDate = clock env \<rparr> Helvetica
               in (case injectAll env (length (pages pdfDoc)) Helvetica pdfDoc fieldsPayload of
                     Inl e \<Rightarrow> Inl (InjectionFailed e)
                   | Inr signedDoc \<Rightarrow>
                       (case save env signedDoc of
                          None \<Rightarrow> Inl (InjectionFailed SaveError)
                        | Some pdfBytes \<Rightarrow>
                            if \<not> canWrite env outputPath then Inl (InjectionFailed WriteError)
                            else
                              Inr \<lparr> returned = outputPath,
                                    files = fs(outputPath \<mapsto> pdfBytes),
                                    console =
                                      [CHR 0x0A # ''--- AUDIT TRAIL ---'',
                                       ''Original PDF Hash: '' @ sha256 env existingPdfBytes,
                                       ''Signed PDF Hash: '' @ sha256 env pdfBytes,
                                       ''-------------------'' @ [CHR 0x0A]]
                                      @ logAuditEntry env name (sha256 env existingPdfBytes)
                                          (sha256 env pdfBytes) fieldsPayload,
                                    audit =
                                      \<lparr> pdfName = name,
                                        originalHash = sha256 env existingPdfBytes,
                                        signedHash = sha256 env pdfBytes,
                                        auditFields = fieldsPayload \<rparr> \<rparr>))))"

section \<open>A concrete environment for examples\<close>

text \<open>
  The examples below run the engine in one fixed environment. Its base64 decoder reads the
  standard and the URL-safe alphabet up to the first padding character and drops every other
  character; its image decoders accept a buffer that starts with the PNG signature,
  respectively the JPEG start-of-image marker; its document loader accepts bytes that start
  with \<^verbatim>\<open>%PDF\<close> and gives a document of two pages. Digest, serializer and text encoder are
  simple stand-ins. The audit collection accepts every entry.
\<close>

definition sextet :: "char \<Rightarrow> nat option" where
  "sextet c =
     (let n = (of_char c :: nat) in
      if 65 \<le> n \<and> n \<le> 90 then Some (n - 65)
      else if 97 \<le> n \<and> n \<le> 122 then Some (n - 71)
      else if 48 \<le> n \<and> n \<le> 57 then Some (n + 4)
      else if n = 43 \<or> n = 45 then Some 62
      else if n = 47 \<or> n = 95 then Some 63
      else None)"

fun octets :: "nat list \<Rightarrow> bytes" where
  "octets (a # b # c # d # r) =
     [of_nat (a * 4 + b div 16), of_nat ((b mod 16) * 16 + c div 4), of_nat ((c mod 4) * 64 + d)]
     @ octets r"
| "octets [a, b, c] = [of_nat (a * 4 + b div 16), of_nat ((b mod 16) * 16 + c div 4)]"
| "octets [a, b] = [of_nat (a * 4 + b div 16)]"
| "octets r = []"

definition decode64 :: "string \<Rightarrow> bytes" where
  "decode64 s = octets (List.map_filter sextet (takeWhile (\<lambda>c. c \<noteq> CHR ''='') s))"

definition sample_env :: "(bytes, field) env" where
  "sample_env =
     \<lparr> StringToNumber = (\<lambda>s. None),
       sha256 = (\<lambda>b. decimal (7 * length b + sum_list (map unat b))),
       load = (\<lambda>b. if take 4 b = [0x25, 0x50, 0x44, 0x46]
                     then Some [(595, 842), (612, 792)] else None),
       fromBase64 = decode64,
       embedPng = (\<lambda>b. if take 4 b = [0x89, 0x50, 0x4E, 0x47] then Some b else None),
       embedJpg = (\<lambda>b. if take 2 b = [0xFF, 0xD8] then Some b else None),
       encodes = (\<lambda>s. list_all (\<lambda>c. (of_char c :: nat) < 128) s),
       save = (\<lambda>pdfDoc. Some (source pdfDoc
                 @ [of_nat (length (concat (map ops (pages pdfDoc))))])),
       canWrite = (\<lambda>p. True),
       auditSave = (\<lambda>a. None),
       clock = 0 \<rparr>"

text \<open>
  The same environment with a serializer that writes the modification date of the document
  as well, as the library does.
\<close>

definition dated_env :: "(bytes, field) env" where
  "dated_env =
     sample_env\<lparr>save := (\<lambda>pdfDoc. Some (source pdfDoc
                 @ [of_nat (modificationDate pdfDoc),
                    of_nat (length (concat (map ops (pages pdfDoc))))]))\<rparr>"

text \<open>An upload directory with one document, and that document once loaded.\<close>

definition sample_files :: "string \<rightharpoonup> bytes" where
  "sample_files = [''uploads/a'' \<mapsto> [0x25, 0x50, 0x44, 0x46, 0x2D]]"

definition sample_doc :: "bytes document" where
  "sample_doc =
     \<lparr> source = [0x25, 0x50, 0x44, 0x46, 0x2D],
       pages = [\<lparr>getSize = (595, 842), ops = []\<rparr>, \<lparr>getSize = (612, 792), ops = []\<rparr>],
       images = [], fonts = [Helvetica], modificationDate = 0 \<rparr>"

text \<open>A placement of the given type, page number and value, at a fixed box.\<close>

definition placement :: "string \<Rightarrow> jsval \<Rightarrow> jsval \<Rightarrow> field" where
  "placement t p v =
     \<lparr> type = t, pageNumber = p, value = v, xPct = 0.1, yPct = 0.1, wPct = 0.3, hPct = 0.05 \<rparr>"

text \<open>A placement object that carries its page as \<^verbatim>\<open>pageIndex\<close>, with no \<^verbatim>\<open>pageNumber\<close>.\<close>

record indexed_field = field +
  pageIndex :: jsval

definition indexed_placement :: "string \<Rightarrow> jsval \<Rightarrow> jsval \<Rightarrow> indexed_field" where
  "indexed_placement t p v =
     \<lparr> type = t, pageNumber = JUndefined, value = v,
       xPct = 0.1, yPct = 0.1, wPct = 0.3, hPct = 0.05, pageIndex = p \<rparr>"

section \<open>Properties of the normalizer\<close>

text \<open>The unfolding used to evaluate binary64 arithmetic on given numbers.\<close>

lemmas eval64 = round64_def nearest_def pow2_def expo.simps minus64_def times64_def
  normalizeCoordinates64_def boxed_at_def d01_def d03_def d005_def d095_def Let_def

text \<open>
  Claim C1 says that the normalizer returns exactly \<open>x = xPct * targetPageWidth\<close>,
  \<open>width = wPct * targetPageWidth\<close>, \<open>height = hPct * targetPageHeight\<close> and
  \<open>y = (1 - yPct - hPct) * targetPageHeight\<close>, and that the placement
  \<open>(0.1, 0.1, 0.3, 0.05)\<close> on a 595 by 842 page normalizes to \<open>(59.5, 715.7, 178.5, 42.1)\<close>.
  The formulas are those of the code, but its arithmetic is binary64, and there the \<open>y\<close> of
  the scenario is not the number \<^verbatim>\<open>715.7\<close>. What holds (claim C1 as amended): for every
  placement with finite fractions and every finite page size the normalizer returns the four
  formulas with each \<^verbatim>\<open>-\<close> and \<^verbatim>\<open>*\<close> the binary64 operation; the placement
  \<open>(0.1, 0.1, 0.3, 0.05)\<close> on a 595 by 842 page normalizes to \<open>x = 59.5\<close>, \<open>width = 178.5\<close>,
  \<open>height = 42.1\<close> and \<open>y = 715.6999999999999\<close>, the binary64 number next below \<^verbatim>\<open>715.7\<close>
  (the two differ by \<open>2 ^ -43\<close>, which is \<open>1 / 8796093022208\<close>).
\<close>

theorem normalizeCoordinates64_formulas:
  "x64 (normalizeCoordinates64 field targetPageWidth targetPageHeight)
     = times64 (Some (xPct field)) (Some targetPageWidth)
   \<and> width64 (normalizeCoordinates64 field targetPageWidth targetPageHeight)
     = times64 (Some (wPct field)) (Some targetPageWidth)
   \<and> height64 (normalizeCoordinates64 field targetPageWidth targetPageHeight)
     = times64 (Some (hPct field)) (Some targetPageHeight)
   \<and> y64 (normalizeCoordinates64 field targetPageWidth targetPageHeight)
     = times64 (minus64 (minus64 (Some 1) (Some (yPct field))) (Some (hPct field)))
         (Some targetPageHeight)
   \<and> round64 0.1 = Some d01 \<and> round64 0.3 = Some d03 \<and> round64 0.05 = Some d005
   \<and> round64 59.5 = Some 59.5 \<and> round64 178.5 = Some 178.5
   \<and> round64 42.1 = Some (5925048259759309 / 140737488355328)
   \<and> round64 715.7 = Some (6295363775994266 / 8796093022208)
   \<and> normalizeCoordinates64 (boxed_at d01 d01 d03 d005) 595 842
     = \<lparr> x64 = Some 59.5, y64 = Some (6295363775994265 / 8796093022208),
         width64 = Some 178.5, height64 = Some (5925048259759309 / 140737488355328) \<rparr>"
proof -
  have lit: "round64 0.1 = Some d01" "round64 0.3 = Some d03" "round64 0.05 = Some d005"
    "round64 59.5 = Some 59.5" "round64 178.5 = Some 178.5"
    "round64 42.1 = Some (5925048259759309 / 140737488355328)"
    "round64 715.7 = Some (6295363775994266 / 8796093022208)"
    by (simp_all add: eval64)
  have scen: "normalizeCoordinates64 (boxed_at d01 d01 d03 d005) 595 842
     = \<lparr> x64 = Some 59.5, y64 = Some (6295363775994265 / 8796093022208),
         width64 = Some 178.5, height64 = Some (5925048259759309 / 140737488355328) \<rparr>"
    by (simp add: eval64)
  have gen:
    "x64 (normalizeCoordinates64 field targetPageWidth targetPageHeight)
       = times64 (Some (xPct field)) (Some targetPageWidth)"
    "width64 (normalizeCoordinates64 field targetPageWidth targetPageHeight)
       = times64 (Some (wPct field)) (Some targetPageWidth)"
    "height64 (normalizeCoordinates64 field targetPageWidth targetPageHeight)
       = times64 (Some (hPct field)) (Some targetPageHeight)"
    "y64 (normalizeCoordinates64 field targetPageWidth targetPageHeight)
       = times64 (minus64 (minus64 (Some 1) (Some (yPct field))) (Some (hPct field)))
           (Some targetPageHeight)"
    by (simp_all add: normalizeCoordinates64_def)
  show ?thesis
    by (intro conjI gen lit scen)
qed

text \<open>The \<open>y\<close> computed for the scenario is not the binary64 number written \<^verbatim>\<open>715.7\<close>.\<close>

theorem scenario_y_differs:
  "y64 (normalizeCoordinates64 (boxed_at d01 d01 d03 d005) 595 842) \<noteq> round64 715.7"
  by (simp add: eval64)

subsection \<open>Rounding\<close>

lemma pow2_powr: "pow2 k = 2 powr (real_of_int k)"
  by (simp add: pow2_def powr_real_of_int inverse_eq_divide power_one_over)

lemma pow2_pos: "0 < pow2 k"
  by (simp add: pow2_powr)

lemma pow2_add: "pow2 (j + k) = pow2 j * pow2 k"
  by (simp add: pow2_powr powr_add)

lemma pow2_mono: "j \<le> k \<Longrightarrow> pow2 j \<le> pow2 k"
  by (simp add: pow2_powr)

lemma pow2_1: "pow2 1 = 2"
  by (simp add: pow2_def)

lemma pow2_m1: "pow2 (- 1) = 1 / 2"
  by (simp add: pow2_def)

lemma pow2_0: "pow2 0 = 1"
  by (simp add: pow2_def)

lemma pow2_sub52: "pow2 (k - 52) = pow2 k / 2 ^ 52"
  using pow2_add [of k "- 52"] by (simp add: pow2_def)

lemma expo_bounds: "0 < v \<Longrightarrow> pow2 (expo v) \<le> v \<and> v < 2 * pow2 (expo v)"
proof (induction v rule: expo.induct)
  case (1 v)
  show ?case
  proof (cases "2 \<le> v")
    case True
    then have e: "expo v = expo (v / 2) + 1" using 1(3) by (subst expo.simps) simp
    have "pow2 (expo (v / 2)) \<le> v / 2 \<and> v / 2 < 2 * pow2 (expo (v / 2))"
      using 1(1) True 1(3) by simp
    then show ?thesis by (simp add: e pow2_add pow2_1)
  next
    case False
    show ?thesis
    proof (cases "v < 1")
      case True
      then have e: "expo v = expo (v * 2) - 1" using 1(3) False by (subst expo.simps) simp
      have "pow2 (expo (v * 2)) \<le> v * 2 \<and> v * 2 < 2 * pow2 (expo (v * 2))"
        using 1(2) True False 1(3) by simp
      moreover have "pow2 (expo (v * 2) - 1) = pow2 (expo (v * 2)) / 2"
        using pow2_add [of "expo (v * 2)" "- 1"] by (simp add: pow2_m1)
      ultimately show ?thesis by (simp add: e)
    next
      case F2: False
      then have "expo v = 0" using False 1(3) by (subst expo.simps) simp
      then show ?thesis using False F2 by (simp add: pow2_0)
    qed
  qed
qed

lemma nearest_close: "\<bar>of_int (nearest q) - q\<bar> \<le> 1 / 2"
  unfolding nearest_def Let_def by (auto simp: abs_if) linarith+

lemma nearest_mono_upper: "q \<le> of_int m \<Longrightarrow> nearest q \<le> m"
  unfolding nearest_def Let_def by (auto) linarith+

lemma nearest_mono_lower: "of_int m \<le> q \<Longrightarrow> m \<le> nearest q"
  unfolding nearest_def Let_def by (auto) linarith+

lemma round64_error:
  assumes "\<bar>v\<bar> \<le> B" and "pow2 (- 1022) \<le> B" and "B \<le> 2 ^ 1023"
  shows "\<exists>r. round64 v = Some r \<and> \<bar>r - v\<bar> \<le> B / 2 ^ 53"
proof -
  define e where "e = max (expo \<bar>v\<bar>) (- 1022)"
  define u where "u = pow2 (e - 52)"
  define r where "r = of_int (nearest (v / u)) * u"
  have up: "0 < u" by (simp add: u_def pow2_pos)
  have Bp: "0 < B" using assms(2) pow2_pos [of "- 1022"] by linarith
  have "\<bar>r - v\<bar> = \<bar>of_int (nearest (v / u)) - v / u\<bar> * u"
  proof -
    have "r - v = (of_int (nearest (v / u)) - v / u) * u"
      using up by (simp add: r_def field_simps)
    then show ?thesis using up by (simp add: abs_mult)
  qed
  also have "\<dots> \<le> 1 / 2 * u"
    using nearest_close [of "v / u"] up by (intro mult_right_mono) auto
  finally have close: "\<bar>r - v\<bar> \<le> u / 2" by simp
  have err: "\<bar>r - v\<bar> \<le> B / 2 ^ 53"
  proof (cases "v = 0")
    case True
    then have "r = 0" by (simp add: r_def nearest_def)
    then show ?thesis using True Bp by simp
  next
    case False
    then have "pow2 (expo \<bar>v\<bar>) \<le> \<bar>v\<bar>" using expo_bounds [of "\<bar>v\<bar>"] by simp
    then have "pow2 e \<le> B" using assms(1,2) by (simp add: e_def max_def)
    then have "u \<le> B / 2 ^ 52" by (simp add: u_def pow2_sub52 divide_right_mono)
    then show ?thesis using close by simp
  qed
  have "\<bar>r\<bar> \<le> \<bar>v\<bar> + \<bar>r - v\<bar>" by simp
  also have "\<dots> \<le> B + B / 2 ^ 53" using assms(1) err by simp
  also have "\<dots> \<le> 2 ^ 1023 + 2 ^ 1023 / 2 ^ 53"
    using assms(3) by (intro add_mono divide_right_mono) auto
  also have "\<dots> < (2::real) ^ 1024" by simp
  finally have "\<bar>r\<bar> < 2 ^ 1024" .
  then have "round64 v = Some r"
    by (simp add: round64_def Let_def e_def u_def r_def)
  then show ?thesis using err by blast
qed

lemma round64_unit:
  assumes "\<bar>v\<bar> \<le> 1" and "round64 v = Some r"
  shows "\<bar>r\<bar> \<le> 1" and "0 \<le> v \<Longrightarrow> 0 \<le> r"
proof -
  define e where "e = max (expo \<bar>v\<bar>) (- 1022)"
  define u where "u = pow2 (e - 52)"
  have r: "r = of_int (nearest (v / u)) * u"
    using assms(2) by (simp add: round64_def Let_def e_def u_def split: if_splits)
  have up: "0 < u" by (simp add: u_def pow2_pos)
  have "expo \<bar>v\<bar> \<le> 0"
  proof (cases "v = 0")
    case True
    then show ?thesis by (simp add: expo.simps)
  next
    case False
    then have "pow2 (expo \<bar>v\<bar>) \<le> 1" using expo_bounds [of "\<bar>v\<bar>"] assms(1) by simp
    then show ?thesis
      using pow2_mono [of 1 "expo \<bar>v\<bar>"] by (cases "expo \<bar>v\<bar> \<le> 0") (auto simp: pow2_1)
  qed
  then have "e \<le> 0" by (simp add: e_def)
  then have u: "u = 1 / 2 ^ nat (52 - e)"
    by (simp add: u_def pow2_def)
  define m :: int where "m = 2 ^ nat (52 - e)"
  have mu: "of_int m * u = 1" and mi: "1 / u = of_int m"
    by (simp_all add: m_def u)
  have "v / u \<le> of_int m"
    using assms(1) up by (simp add: mi [symmetric] divide_right_mono)
  then have up1: "nearest (v / u) \<le> m" by (rule nearest_mono_upper)
  have "of_int (- m) \<le> v / u"
  proof -
    have "- 1 / u \<le> v / u" using assms(1) up by (intro divide_right_mono) auto
    then show ?thesis using mi by simp
  qed
  then have lo1: "- m \<le> nearest (v / u)" by (rule nearest_mono_lower)
  have "of_int (nearest (v / u)) * u \<le> of_int m * u"
    using up1 up by (intro mult_right_mono) auto
  moreover have "of_int (- m) * u \<le> of_int (nearest (v / u)) * u"
    using lo1 up by (intro mult_right_mono) auto
  ultimately show "\<bar>r\<bar> \<le> 1" using mu by (simp add: r abs_le_iff)
  show "0 \<le> r" if "0 \<le> v"
  proof -
    have "of_int 0 \<le> v / u" using that up by simp
    then have "0 \<le> nearest (v / u)" by (rule nearest_mono_lower)
    then show ?thesis using up by (simp add: r)
  qed
qed

lemma exact_origin_flip:
  assumes "0 < targetWidth" and "0 < targetHeight"
  shows
  "x (normalizeCoordinates field targetWidth targetHeight) / targetWidth = xPct field
   \<and> (y (normalizeCoordinates field targetWidth targetHeight)
        + height (normalizeCoordinates field targetWidth targetHeight)) / targetHeight
       = 1 - yPct field
   \<and> y (normalizeCoordinates (field\<lparr>yPct := 0, hPct := 0\<rparr>) targetWidth targetHeight)
       = targetHeight
   \<and> y (normalizeCoordinates (field\<lparr>yPct := 1 - hPct field\<rparr>) targetWidth targetHeight) = 0
   \<and> normalizeCoordinates (field\<lparr>xPct := t * a + (1 - t) * b\<rparr>) targetWidth targetHeight
       = mix t (normalizeCoordinates (field\<lparr>xPct := a\<rparr>) targetWidth targetHeight)
               (normalizeCoordinates (field\<lparr>xPct := b\<rparr>) targetWidth targetHeight)
   \<and> normalizeCoordinates (field\<lparr>yPct := t * a + (1 - t) * b\<rparr>) targetWidth targetHeight
       = mix t (normalizeCoordinates (field\<lparr>yPct := a\<rparr>) targetWidth targetHeight)
               (normalizeCoordinates (field\<lparr>yPct := b\<rparr>) targetWidth targetHeight)
   \<and> normalizeCoordinates (field\<lparr>wPct := t * a + (1 - t) * b\<rparr>) targetWidth targetHeight
       = mix t (normalizeCoordinates (field\<lparr>wPct := a\<rparr>) targetWidth targetHeight)
               (normalizeCoordinates (field\<lparr>wPct := b\<rparr>) targetWidth targetHeight)
   \<and> normalizeCoordinates (field\<lparr>hPct := t * a + (1 - t) * b\<rparr>) targetWidth targetHeight
       = mix t (normalizeCoordinates (field\<lparr>hPct := a\<rparr>) targetWidth targetHeight)
               (normalizeCoordinates (field\<lparr>hPct := b\<rparr>) targetWidth targetHeight)
   \<and> normalizeCoordinates field (t * a + (1 - t) * b) targetHeight
       = mix t (normalizeCoordinates field a targetHeight)
               (normalizeCoordinates field b targetHeight)
   \<and> normalizeCoordinates field targetWidth (t * a + (1 - t) * b)
       = mix t (normalizeCoordinates field targetWidth a)
               (normalizeCoordinates field targetWidth b)"
proof -
  have q: "(1 - yPct field - hPct field) * targetHeight + hPct field * targetHeight
           = (1 - yPct field) * targetHeight"
    by (simp add: algebra_simps)
  show ?thesis
    using assms unfolding normalizeCoordinates_def mix_def
    by (simp add: q) (simp add: algebra_simps)
qed

lemma times64_close:
  assumes "0 \<le> p" and "p \<le> 1" and "1 / 2 ^ 1022 \<le> D" and "D \<le> 2 ^ 1023"
  shows "close_to (times64 (Some p) (Some D)) (p * D) (D / 2 ^ 53)"
proof -
  have "(0::real) < 1 / 2 ^ 1022" by simp
  then have "0 < D" using assms(3) by linarith
  then have "\<bar>p * D\<bar> \<le> D" using assms(1,2) by (simp add: abs_mult mult_left_le_one_le)
  moreover have "pow2 (- 1022) \<le> D" using assms(3) by (simp add: pow2_def)
  ultimately obtain r where "round64 (p * D) = Some r" "\<bar>r - p * D\<bar> \<le> D / 2 ^ 53"
    using round64_error [of "p * D" D] assms(4) by blast
  then show ?thesis by (simp add: close_to_def times64_def)
qed

lemma y64_close:
  assumes "0 \<le> p" and "p \<le> 1" and "0 \<le> h" and "h \<le> 1"
    and "1 / 2 ^ 1022 \<le> D" and "D \<le> 2 ^ 1023"
  shows "close_to (times64 (minus64 (minus64 (Some 1) (Some p)) (Some h)) (Some D))
           ((1 - p - h) * D) (3 * D / 2 ^ 53)"
proof -
  have "(0::real) < 1 / 2 ^ 1022" by simp
  then have Dp: "0 < D" using assms(5) by linarith
  have one: "pow2 (- 1022) \<le> 1" "(1::real) \<le> 2 ^ 1023" by (simp_all add: pow2_def)
  have "\<bar>1 - p\<bar> \<le> 1" using assms(1,2) by simp
  then obtain a1 where a1: "round64 (1 - p) = Some a1" "\<bar>a1 - (1 - p)\<bar> \<le> 1 / 2 ^ 53"
    using round64_error [of "1 - p" 1] one by auto
  have a1r: "\<bar>a1\<bar> \<le> 1" "0 \<le> a1"
    using round64_unit [of "1 - p" a1] a1(1) assms(1,2) by simp_all
  then have "\<bar>a1 - h\<bar> \<le> 1" using assms(3,4) by simp
  then obtain a2 where a2: "round64 (a1 - h) = Some a2" "\<bar>a2 - (a1 - h)\<bar> \<le> 1 / 2 ^ 53"
    using round64_error [of "a1 - h" 1] one by auto
  have a2r: "\<bar>a2\<bar> \<le> 1"
    using round64_unit(1) [of "a1 - h" a2] a2(1) \<open>\<bar>a1 - h\<bar> \<le> 1\<close> by simp
  then have "\<bar>a2 * D\<bar> \<le> D" using Dp by (simp add: abs_mult mult_left_le_one_le)
  moreover have "pow2 (- 1022) \<le> D" using assms(5) by (simp add: pow2_def)
  ultimately obtain r where r: "round64 (a2 * D) = Some r" "\<bar>r - a2 * D\<bar> \<le> D / 2 ^ 53"
    using round64_error [of "a2 * D" D] assms(6) by blast
  have "\<bar>a2 - (1 - p - h)\<bar> \<le> 2 / 2 ^ 53" using a1(2) a2(2) by linarith
  then have "\<bar>a2 - (1 - p - h)\<bar> * D \<le> 2 / 2 ^ 53 * D"
    using Dp by (intro mult_right_mono) auto
  moreover have "\<bar>a2 * D - (1 - p - h) * D\<bar> = \<bar>a2 - (1 - p - h)\<bar> * D"
    using Dp by (simp add: abs_mult flip: left_diff_distrib)
  ultimately have "\<bar>a2 * D - (1 - p - h) * D\<bar> \<le> 2 * D / 2 ^ 53" by simp
  then have "\<bar>r - (1 - p - h) * D\<bar> \<le> 3 * D / 2 ^ 53" using r(2) by linarith
  then show ?thesis
    by (simp add: close_to_def times64_def minus64_def a1(1) a2(1) r(1))
qed

text \<open>
  Claim C2 says that for fractions in \<open>[0, 1]\<close> and positive page dimensions the normalizer
  is linear in each input and satisfies \<open>x / targetWidth = xPct\<close> and
  \<open>(y + height) / targetHeight = 1 - yPct\<close>, that \<open>yPct = 0\<close>, \<open>hPct = 0\<close> gives
  \<open>y = targetHeight\<close> and that \<open>yPct = 1 - hPct\<close> gives \<open>y = 0\<close>. In the binary64 arithmetic of
  the code the identities hold only up to rounding, and \<open>y\<close> has the constant term
  \<open>targetHeight\<close>. What holds (claim C2 as amended): for fractions in \<open>[0, 1]\<close> and page
  dimensions between \<open>2 ^ -1022\<close> and \<open>2 ^ 1023\<close>, the values the normalizer computes are
  finite and lie within \<open>targetWidth / 2 ^ 53\<close> (for \<open>x\<close> and \<open>width\<close>),
  \<open>targetHeight / 2 ^ 53\<close> (for \<open>height\<close>) and \<open>3 * targetHeight / 2 ^ 53\<close> (for \<open>y\<close>) of
  the exact values of the formulas; a placement with \<open>yPct = 0\<close> and \<open>hPct = 0\<close> on a page
  whose height is a binary64 number gets exactly \<open>y = targetHeight\<close>; and the exact values
  satisfy \<open>x / targetWidth = xPct\<close>, \<open>(y + height) / targetHeight = 1 - yPct\<close>,
  \<open>y = targetHeight\<close> at \<open>yPct = hPct = 0\<close>, \<open>y = 0\<close> at \<open>yPct = 1 - hPct\<close>, and are of first
  degree in each input (they carry the point \<open>t * a + (1 - t) * b\<close> of an input to the same
  point between the two results; \<open>y\<close> is not homogeneous in \<open>yPct\<close> and \<open>hPct\<close>).
\<close>

theorem normalizeCoordinates64_rounding:
  assumes "0 \<le> xPct field" and "xPct field \<le> 1" and "0 \<le> yPct field" and "yPct field \<le> 1"
    and "0 \<le> wPct field" and "wPct field \<le> 1" and "0 \<le> hPct field" and "hPct field \<le> 1"
    and "1 / 2 ^ 1022 \<le> targetWidth" and "targetWidth \<le> 2 ^ 1023"
    and "1 / 2 ^ 1022 \<le> targetHeight" and "targetHeight \<le> 2 ^ 1023"
  shows
  "close_to (x64 (normalizeCoordinates64 field targetWidth targetHeight))
       (x (normalizeCoordinates field targetWidth targetHeight)) (targetWidth / 2 ^ 53)
   \<and> close_to (width64 (normalizeCoordinates64 field targetWidth targetHeight))
       (width (normalizeCoordinates field targetWidth targetHeight)) (targetWidth / 2 ^ 53)
   \<and> close_to (height64 (normalizeCoordinates64 field targetWidth targetHeight))
       (height (normalizeCoordinates field targetWidth targetHeight)) (targetHeight / 2 ^ 53)
   \<and> close_to (y64 (normalizeCoordinates64 field targetWidth targetHeight))
       (y (normalizeCoordinates field targetWidth targetHeight)) (3 * targetHeight / 2 ^ 53)
   \<and> (round64 targetHeight = Some targetHeight
        \<longrightarrow> y64 (normalizeCoordinates64 (field\<lparr>yPct := 0, hPct := 0\<rparr>) targetWidth targetHeight)
            = Some targetHeight)
   \<and> x (normalizeCoordinates field targetWidth targetHeight) / targetWidth = xPct field
   \<and> (y (normalizeCoordinates field targetWidth targetHeight)
        + height (normalizeCoordinates field targetWidth targetHeight)) / targetHeight
       = 1 - yPct field
   \<and> y (normalizeCoordinates (field\<lparr>yPct := 0, hPct := 0\<rparr>) targetWidth targetHeight)
       = targetHeight
   \<and> y (normalizeCoordinates (field\<lparr>yPct := 1 - hPct field\<rparr>) targetWidth targetHeight) = 0
   \<and> normalizeCoordinates (field\<lparr>xPct := t * a + (1 - t) * b\<rparr>) targetWidth targetHeight
       = mix t (normalizeCoordinates (field\<lparr>xPct := a\<rparr>) targetWidth targetHeight)
               (normalizeCoordinates (field\<lparr>xPct := b\<rparr>) targetWidth targetHeight)
   \<and> normalizeCoordinates (field\<lparr>yPct := t * a + (1 - t) * b\<rparr>) targetWidth targetHeight
       = mix t (normalizeCoordinates (field\<lparr>yPct := a\<rparr>) targetWidth targetHeight)
               (normalizeCoordinates (field\<lparr>yPct := b\<rparr>) targetWidth targetHeight)
   \<and> normalizeCoordinates (field\<lparr>wPct := t * a + (1 - t) * b\<rparr>) targetWidth targetHeight
       = mix t (normalizeCoordinates (field\<lparr>wPct := a\<rparr>) targetWidth targetHeight)
               (normalizeCoordinates (field\<lparr>wPct := b\<rparr>) targetWidth targetHeight)
   \<and> normalizeCoordinates (field\<lparr>hPct := t * a + (1 - t) * b\<rparr>) targetWidth targetHeight
       = mix t (normalizeCoordinates (field\<lparr>hPct := a\<rparr>) targetWidth targetHeight)
               (normalizeCoordinates (field\<lparr>hPct := b\<rparr>) targetWidth targetHeight)
   \<and> normalizeCoordinates field (t * a + (1 - t) * b) targetHeight
       = mix t (normalizeCoordinates field a targetHeight)
               (normalizeCoordinates field b targetHeight)
   \<and> normalizeCoordinates field targetWidth (t * a + (1 - t) * b)
       = mix t (normalizeCoordinates field targetWidth a)
               (normalizeCoordinates field targetWidth b)"
proof -
  have tiny: "(0::real) < 1 / 2 ^ 1022" by simp
  have W: "0 < targetWidth" using assms(9) tiny by linarith
  have H: "0 < targetHeight" using assms(11) tiny by linarith
  have one: "round64 1 = Some 1"
    by (simp add: round64_def nearest_def pow2_def expo.simps Let_def)
  have c1: "close_to (x64 (normalizeCoordinates64 field targetWidth targetHeight))
       (x (normalizeCoordinates field targetWidth targetHeight)) (targetWidth / 2 ^ 53)"
    using times64_close [OF assms(1,2,9,10)]
    by (simp add: normalizeCoordinates64_def normalizeCoordinates_def)
  have c2: "close_to (width64 (normalizeCoordinates64 field targetWidth targetHeight))
       (width (normalizeCoordinates field targetWidth targetHeight)) (targetWidth / 2 ^ 53)"
    using times64_close [OF assms(5,6,9,10)]
    by (simp add: normalizeCoordinates64_def normalizeCoordinates_def)
  have c3: "close_to (height64 (normalizeCoordinates64 field targetWidth targetHeight))
       (height (normalizeCoordinates field targetWidth targetHeight)) (targetHeight / 2 ^ 53)"
    using times64_close [OF assms(7,8,11,12)]
    by (simp add: normalizeCoordinates64_def normalizeCoordinates_def)
  have c4: "close_to (y64 (normalizeCoordinates64 field targetWidth targetHeight))
       (y (normalizeCoordinates field targetWidth targetHeight)) (3 * targetHeight / 2 ^ 53)"
    using y64_close [OF assms(3,4,7,8,11,12)]
    by (simp add: normalizeCoordinates64_def normalizeCoordinates_def)
  have c5: "round64 targetHeight = Some targetHeight
        \<longrightarrow> y64 (normalizeCoordinates64 (field\<lparr>yPct := 0, hPct := 0\<rparr>) targetWidth targetHeight)
            = Some targetHeight"
    by (simp add: normalizeCoordinates64_def minus64_def times64_def one)
  show ?thesis
    using c1 c2 c3 c4 c5 exact_origin_flip [OF W H, of field t a b] by blast
qed

theorem normalizeCoordinates64_rounding_witness:
  "close_to (x64 (normalizeCoordinates64 (boxed_at d01 d01 d03 d005) 595 842))
       (x (normalizeCoordinates (boxed_at d01 d01 d03 d005) 595 842)) (595 / 2 ^ 53)
   \<and> close_to (y64 (normalizeCoordinates64 (boxed_at d01 d01 d03 d005) 595 842))
       (y (normalizeCoordinates (boxed_at d01 d01 d03 d005) 595 842)) (3 * 842 / 2 ^ 53)
   \<and> y64 (normalizeCoordinates64 ((boxed_at d01 d01 d03 d005)\<lparr>yPct := 0, hPct := 0\<rparr>) 595 842)
       = Some 842"
proof -
  have f: "0 \<le> xPct (boxed_at d01 d01 d03 d005)" "xPct (boxed_at d01 d01 d03 d005) \<le> 1"
    "0 \<le> yPct (boxed_at d01 d01 d03 d005)" "yPct (boxed_at d01 d01 d03 d005) \<le> 1"
    "0 \<le> wPct (boxed_at d01 d01 d03 d005)" "wPct (boxed_at d01 d01 d03 d005) \<le> 1"
    "0 \<le> hPct (boxed_at d01 d01 d03 d005)" "hPct (boxed_at d01 d01 d03 d005) \<le> 1"
    by (simp_all add: boxed_at_def d01_def d03_def d005_def)
  have s: "(1::real) / 2 ^ 1022 \<le> 595" "(595::real) \<le> 2 ^ 1023"
    "(1::real) / 2 ^ 1022 \<le> 842" "(842::real) \<le> 2 ^ 1023"
    by simp_all
  have r: "round64 842 = Some 842"
    by (simp add: round64_def nearest_def pow2_def expo.simps Let_def)
  show ?thesis
    using normalizeCoordinates64_rounding [OF f s] r by blast
qed

text \<open>
  With \<open>hPct\<close> the number \<^verbatim>\<open>0.05\<close> and \<open>yPct\<close> the number that \<^verbatim>\<open>1 - 0.05\<close> computes (it is
  \<^verbatim>\<open>0.95\<close>), the \<open>y\<close> computed on a page of height 842 is about \<open>3.5e-14\<close>, not 0.
\<close>

theorem bottom_edge_not_zero:
  "round64 (1 - d005) = Some d095
   \<and> y64 (normalizeCoordinates64 (boxed_at d01 d095 d03 d005) 595 842)
       = Some (1263 / 36028797018963968)
   \<and> y64 (normalizeCoordinates64 (boxed_at d01 d095 d03 d005) 595 842) \<noteq> Some 0"
  by (simp add: eval64)

section \<open>Facts about the helpers\<close>

lemma resolve_falsy: "\<not> truthy v \<Longrightarrow> js_or v (JNum 0) = JNum 0"
  by (simp add: js_or_def)

lemma element_bound: "element n v = Some i \<Longrightarrow> i < n"
proof (cases v)
  case (JStr s)
  assume "element n v = Some i"
  with JStr have "List.find (\<lambda>k. decimal k = s) [0..<n] = Some i" by simp
  then have "i \<in> set [0..<n]" by (auto simp: find_Some_iff)
  then show ?thesis by simp
qed (auto split: if_splits)

text \<open>The unfolding used to run the engine in the example environment.\<close>

lemmas sample_simps =
  sample_env_def sample_files_def sample_doc_def placement_def indexed_placement_def
  injectFields_def injectField_def parseBase64Image_def logAuditEntry_def
  embedFont_def embed_def draw_def normalizeCoordinates_def
  js_or_def js_ge_def startsWith_def split_def item_def
  decode64_def sextet_def List.map_filter_def decimal.simps Let_def

section \<open>Placements of an unknown type\<close>

text \<open>
  Claim C3 says that a placement whose type is not one of signature, text, date, image, radio
  is rejected and reported as an error. The engine does not do that: the \<^verbatim>\<open>switch\<close> has no
  default branch and nothing validates the type, so such a placement is passed over in
  silence. What holds instead (claim C3 as amended): for every placement whose type is not
  one of the five and whose page number resolves to a page of the document, the engine draws
  nothing for it, raises no error, and goes on with the remaining placements.
\<close>

theorem unknown_type_skipped:
  assumes "type field \<notin> {''signature'', ''text'', ''date'', ''image'', ''radio''}"
    and "element (length (pages pdfDoc)) (js_or (pageNumber field) (JNum 0)) = Some i"
  shows "injectField env pdfDoc (Some i) field fnt = Inr pdfDoc
         \<and> injectAll env (length (pages pdfDoc)) fnt pdfDoc (field # rest)
             = injectAll env (length (pages pdfDoc)) fnt pdfDoc rest"
  using assms element_bound [OF assms(2)] by (simp add: injectField_def Let_def)

theorem unknown_type_skipped_witness:
  "injectField sample_env sample_doc (Some 0) (placement ''checkbox'' (JNum 0) (JStr ''x'')) Helvetica
     = Inr sample_doc
   \<and> injectAll sample_env (length (pages sample_doc)) Helvetica sample_doc
        [placement ''checkbox'' (JNum 0) (JStr ''x''), placement ''text'' (JNum 1) (JStr ''hi'')]
     = injectAll sample_env (length (pages sample_doc)) Helvetica sample_doc
        [placement ''text'' (JNum 1) (JStr ''hi'')]"
proof -
  have t: "type (placement ''checkbox'' (JNum 0) (JStr ''x''))
             \<notin> {''signature'', ''text'', ''date'', ''image'', ''radio''}"
    by (simp add: placement_def)
  have p: "element (length (pages sample_doc))
             (js_or (pageNumber (placement ''checkbox'' (JNum 0) (JStr ''x''))) (JNum 0)) = Some 0"
    by (simp add: placement_def sample_doc_def js_or_def)
  show ?thesis
    by (rule unknown_type_skipped [OF t p])
qed

text \<open>
  A run whose only placement has the type \<^verbatim>\<open>checkbox\<close>: the loop returns the document
  unchanged, and the run completes, writes the output and logs the audit entry as usual.
\<close>

theorem unknown_type_not_rejected:
  "injectAll sample_env 2 Helvetica sample_doc [placement ''checkbox'' (JNum 0) (JStr ''x'')]
     = Inr sample_doc
   \<and> injectFields sample_env sample_files ''uploads/a'' ''a.pdf''
        [placement ''checkbox'' (JNum 0) (JStr ''x'')] ''output/a''
     = Inr \<lparr> returned = ''output/a'',
             files = sample_files(''output/a'' \<mapsto> [0x25, 0x50, 0x44, 0x46, 0x2D, 0]),
             console = [CHR 0x0A # ''--- AUDIT TRAIL ---'', ''Original PDF Hash: 335'',
                        ''Signed PDF Hash: 342'', ''-------------------'' @ [CHR 0x0A],
                        ''[DB] Audit log saved for a.pdf''],
             audit = \<lparr> pdfName = ''a.pdf'', originalHash = ''335'', signedHash = ''342'',
                        auditFields = [placement ''checkbox'' (JNum 0) (JStr ''x'')] \<rparr> \<rparr>"
  by (simp add: sample_simps)

section \<open>Page numbers out of range\<close>

text \<open>A page number at or beyond the page count is passed over and the loop goes on.\<close>

lemma page_beyond_count_skipped:
  assumes "pageNumber field = JNum r" and "real n \<le> r"
  shows "injectAll env n fnt pdfDoc (field # rest) = injectAll env n fnt pdfDoc rest"
proof -
  have "0 < r \<or> n = 0" using assms(2) by (cases n) auto
  then have "js_ge (StringToNumber env) (js_or (pageNumber field) (JNum 0)) n"
    using assms by (auto simp: js_or_def js_ge_def)
  then show ?thesis by simp
qed

text \<open>
  Claim C4 says that a placement whose page index is out of range, below zero included, is
  skipped and never aborts the run. The guard of the loop tests only \<^verbatim>\<open>pageNumber >= pages.length\<close>.
  A negative page number passes it, \<^verbatim>\<open>pages[pageNumber]\<close> is \<^verbatim>\<open>undefined\<close>, and
  \<^verbatim>\<open>injectField\<close> throws on \<^verbatim>\<open>page.getSize()\<close>: the whole run fails, whatever the other
  placements are, and no output is written. The theorem states that behaviour of the code.
\<close>

theorem negative_page_aborts:
  assumes "fs pdfPath = Some existingPdfBytes"
    and "load env existingPdfBytes = Some sizes"
    and "pageNumber field = JNum r" and "r < 0"
  shows "injectFields env fs pdfPath name (field # rest) outputPath
           = Inl (InjectionFailed TypeError)"
proof -
  have "js_or (pageNumber field) (JNum 0) = JNum r"
    using assms by (simp add: js_or_def)
  moreover have "\<not> js_ge (StringToNumber env) (JNum r) n" for n
    using assms(4) by (simp add: js_ge_def)
  moreover have "element n (JNum r) = None" for n
    using assms(4) by simp
  ultimately have "injectAll env n fnt pdfDoc (field # rest) = Inl TypeError" for n fnt
      and pdfDoc :: "'a document"
    by (simp add: injectField_def)
  then show ?thesis
    using assms(1,2) by (simp add: injectFields_def Let_def)
qed

theorem negative_page_aborts_witness:
  "injectFields sample_env sample_files ''uploads/a'' ''a.pdf''
     [placement ''text'' (JNum (- 1)) (JStr ''late''), placement ''text'' (JNum 0) (JStr ''hello'')]
     ''output/a''
   = Inl (InjectionFailed TypeError)"
  using negative_page_aborts [of sample_files "''uploads/a''" "[0x25, 0x50, 0x44, 0x46, 0x2D]"
     sample_env "[(595, 842), (612, 792)]" "placement ''text'' (JNum (- 1)) (JStr ''late'')" "- 1"
     "''a.pdf''" "[placement ''text'' (JNum 0) (JStr ''hello'')]" "''output/a''"]
  by (simp add: sample_env_def sample_files_def placement_def)

section \<open>Signature and image placements\<close>

text \<open>
  The paths on which a signature or image placement is passed over: the value does not parse
  as a data URI with one \<^verbatim>\<open>;base64,\<close> separator, or its media type is none of
  \<^verbatim>\<open>image/png\<close>, \<^verbatim>\<open>image/jpeg\<close>, \<^verbatim>\<open>image/jpg\<close>. Nothing is drawn and no error is raised.
\<close>

lemma image_without_decoder_skipped:
  assumes "type field = ''signature'' \<or> type field = ''image''"
    and "i < length (pages pdfDoc)"
    and "parseBase64Image env (value field) = Inr None
         \<or> parseBase64Image env (value field) = Inr (Some \<lparr>buffer = buf, mime = m\<rparr>)
            \<and> m \<notin> {Some ''image/png'', Some ''image/jpeg'', Some ''image/jpg''}"
  shows "injectField env pdfDoc (Some i) field fnt = Inr pdfDoc"
  using assms by (auto simp add: injectField_def Let_def)

text \<open>
  Claim C5 says that a signature or image placement whose value is malformed, whose media
  type is unsupported, or whose decoded bytes are not a valid image of the declared type is
  skipped, and that such a failure never aborts the run. For bytes that the image decoder of
  the library rejects the engine does not skip: it calls \<^verbatim>\<open>embedPng\<close> or \<^verbatim>\<open>embedJpg\<close>
  outside any \<^verbatim>\<open>try\<close>, the rejection propagates to the \<^verbatim>\<open>catch\<close> of \<^verbatim>\<open>injectFields\<close>, and
  the whole run fails. The theorem states that behaviour of the code, for a placement on the
  first page.
\<close>

theorem rejected_image_bytes_abort:
  assumes "fs pdfPath = Some existingPdfBytes"
    and "load env existingPdfBytes = Some (sz # sizes)"
    and "\<not> truthy (pageNumber field)"
    and "type field = ''signature'' \<or> type field = ''image''"
    and "parseBase64Image env (value field) = Inr (Some \<lparr>buffer = buf, mime = Some m\<rparr>)"
    and "m = ''image/png'' \<and> embedPng env buf = None
         \<or> (m = ''image/jpeg'' \<or> m = ''image/jpg'') \<and> embedJpg env buf = None"
  shows "injectFields env fs pdfPath name (field # rest) outputPath
           = Inl (InjectionFailed EmbedError)"
proof -
  have "js_or (pageNumber field) (JNum 0) = JNum 0"
    using assms(3) by (rule resolve_falsy)
  then show ?thesis
    using assms(1,2,4,5,6)
    by (auto simp add: injectFields_def injectField_def embedFont_def js_ge_def Let_def)
qed

theorem rejected_image_bytes_abort_witness:
  "injectFields sample_env sample_files ''uploads/a'' ''a.pdf''
     [placement ''signature'' (JNum 0) (JStr ''data:image/png;base64,AAAA''),
      placement ''text'' (JNum 0) (JStr ''hello'')]
     ''output/a''
   = Inl (InjectionFailed EmbedError)"
proof -
  have f: "sample_files ''uploads/a'' = Some [0x25, 0x50, 0x44, 0x46, 0x2D]"
    by (simp add: sample_files_def)
  have l: "load sample_env [0x25, 0x50, 0x44, 0x46, 0x2D] = Some [(595, 842), (612, 792)]"
    by (simp add: sample_env_def)
  have n: "\<not> truthy (pageNumber
             (placement ''signature'' (JNum 0) (JStr ''data:image/png;base64,AAAA'')))"
    by (simp add: placement_def)
  have t: "type (placement ''signature'' (JNum 0) (JStr ''data:image/png;base64,AAAA''))
             = ''signature''
           \<or> type (placement ''signature'' (JNum 0) (JStr ''data:image/png;base64,AAAA''))
             = ''image''"
    by (simp add: placement_def)
  have p: "parseBase64Image sample_env
             (value (placement ''signature'' (JNum 0) (JStr ''data:image/png;base64,AAAA'')))
           = Inr (Some \<lparr>buffer = [0, 0, 0], mime = Some ''image/png''\<rparr>)"
    by (simp add: sample_simps)
  have e: "''image/png'' = ''image/png'' \<and> embedPng sample_env [0, 0, 0] = None
           \<or> (''image/png'' = ''image/jpeg'' \<or> ''image/png'' = ''image/jpg'')
              \<and> embedJpg sample_env [0, 0, 0] = None"
    by (simp add: sample_env_def)
  show ?thesis
    by (rule rejected_image_bytes_abort
          [where fs = sample_files and pdfPath = "''uploads/a''", OF f l n t p e])
qed

section \<open>Radio placements\<close>

text \<open>
  Claim C6. For every radio placement on a page of the document, the engine draws the outline
  rectangle at the normalized box whatever the value is, and then a filled circle centred at
  \<open>(x + width / 2, y + height / 2)\<close> exactly when the value is truthy (checked); with a falsy
  value only the outline is drawn. No other call is made and no error is raised.
\<close>

theorem radio_outline_and_marker:
  assumes "type field = ''radio''" and "i < length (pages pdfDoc)"
  shows
  "injectField env pdfDoc (Some i) field fnt =
     (let c = normalizeCoordinates field (fst (getSize (pages pdfDoc ! i)))
                (snd (getSize (pages pdfDoc ! i)));
          outlined = draw pdfDoc i
             (DrawRectangle (x c) (y c) (width c) (height c) (rgb 0.1 0.4 0.8) 1 0.1)
      in Inr (if truthy (value field)
              then draw outlined i
                     (DrawCircle (x c + width c / 2) (y c + height c / 2) (width c / 4)
                        (rgb 0 0 1) 1 (rgb 0 0 0.8) (rgb 0 0 1))
              else outlined))"
  using assms by (simp add: injectField_def Let_def)

theorem radio_outline_and_marker_witness:
  "injectField sample_env sample_doc (Some 0)
     (placement ''radio'' (JNum 0) (JStr ''checked'')) Helvetica
     = Inr (sample_doc\<lparr>pages :=
              [\<lparr>getSize = (595, 842),
                ops = [DrawRectangle 59.5 715.7 178.5 42.1 (rgb 0.1 0.4 0.8) 1 0.1,
                       DrawCircle 148.75 736.75 44.625 (rgb 0 0 1) 1 (rgb 0 0 0.8) (rgb 0 0 1)]\<rparr>,
               \<lparr>getSize = (612, 792), ops = []\<rparr>]\<rparr>)
   \<and> injectField sample_env sample_doc (Some 0) (placement ''radio'' (JNum 0) JNull) Helvetica
     = Inr (sample_doc\<lparr>pages :=
              [\<lparr>getSize = (595, 842),
                ops = [DrawRectangle 59.5 715.7 178.5 42.1 (rgb 0.1 0.4 0.8) 1 0.1]\<rparr>,
               \<lparr>getSize = (612, 792), ops = []\<rparr>]\<rparr>)"
  using radio_outline_and_marker
          [of "placement ''radio'' (JNum 0) (JStr ''checked'')" 0 sample_doc sample_env Helvetica]
        radio_outline_and_marker
          [of "placement ''radio'' (JNum 0) JNull" 0 sample_doc sample_env Helvetica]
  by (simp add: sample_doc_def placement_def draw_def normalizeCoordinates_def Let_def)

section \<open>Placements without a usable page number\<close>

text \<open>
  Claim C9. For every placement whose \<^verbatim>\<open>pageNumber\<close> is absent, \<^verbatim>\<open>null\<close> or otherwise falsy
  (an explicit 0 included), the loop resolves the page to index 0 and, when the document has
  at least one page, injects the field on the first page. The placement may carry any other
  property: one that names its page \<^verbatim>\<open>pageIndex\<close> has no \<^verbatim>\<open>pageNumber\<close> and lands on the
  first page as well.
\<close>

theorem falsy_pageNumber_first_page:
  assumes "\<not> truthy (pageNumber field)" and "pages pdfDoc \<noteq> []"
  shows "js_or (pageNumber field) (JNum 0) = JNum 0
         \<and> injectAll env (length (pages pdfDoc)) fnt pdfDoc (field # rest)
             = (case injectField env pdfDoc (Some 0) field fnt of
                  Inl e \<Rightarrow> Inl e
                | Inr pdfDoc' \<Rightarrow> injectAll env (length (pages pdfDoc)) fnt pdfDoc' rest)"
  using assms by (simp add: js_or_def js_ge_def)

text \<open>A text placed with \<^verbatim>\<open>pageIndex: 1\<close> is drawn on the first page, not on the second.\<close>

theorem falsy_pageNumber_first_page_witness:
  "injectAll sample_env (length (pages sample_doc)) Helvetica sample_doc
     [indexed_placement ''text'' (JNum 1) (JStr ''hello'')]
   = Inr (sample_doc\<lparr>pages :=
            [\<lparr>getSize = (595, 842),
              ops = [DrawText ''hello'' 61.5 745.8 10 Helvetica (rgb 0 0 0)]\<rparr>,
             \<lparr>getSize = (612, 792), ops = []\<rparr>]\<rparr>)"
proof -
  have a: "\<not> truthy (pageNumber (indexed_placement ''text'' (JNum 1) (JStr ''hello'')))"
    by (simp add: indexed_placement_def)
  have b: "pages sample_doc \<noteq> []"
    by (simp add: sample_doc_def)
  have c: "injectField sample_env sample_doc (Some 0)
          (indexed_placement ''text'' (JNum 1) (JStr ''hello'')) Helvetica
        = Inr (sample_doc\<lparr>pages :=
            [\<lparr>getSize = (595, 842),
              ops = [DrawText ''hello'' 61.5 745.8 10 Helvetica (rgb 0 0 0)]\<rparr>,
             \<lparr>getSize = (612, 792), ops = []\<rparr>]\<rparr>)"
    by (simp add: sample_simps)
  have d: "injectAll sample_env (length (pages sample_doc)) Helvetica sample_doc
             [indexed_placement ''text'' (JNum 1) (JStr ''hello'')]
           = (case injectField sample_env sample_doc (Some 0)
                     (indexed_placement ''text'' (JNum 1) (JStr ''hello'')) Helvetica of
                Inl e \<Rightarrow> Inl e
              | Inr pdfDoc' \<Rightarrow>
                  injectAll sample_env (length (pages sample_doc)) Helvetica pdfDoc'
                    ([] :: indexed_field list))"
    by (rule conjunct2 [OF falsy_pageNumber_first_page [OF a b]])
  show ?thesis
    by (subst d, subst c) simp
qed

section \<open>Empty values\<close>

text \<open>
  Claim C10. On a page of the document, a text or date placement whose value is the empty
  string draws nothing, and a radio placement whose value is the empty string draws only its
  outline; for every type and page the empty string gives the same result as \<^verbatim>\<open>null\<close> and as an
  absent value. A signature or image placement whose value is a string that does not start
  with \<^verbatim>\<open>data:\<close> (the empty string is one) draws nothing.
\<close>

theorem empty_value_draws_nothing:
  assumes "i < length (pages pdfDoc)"
  shows
  "(type field = ''text'' \<or> type field = ''date''
      \<longrightarrow> injectField env pdfDoc (Some i) (field\<lparr>value := JStr []\<rparr>) fnt = Inr pdfDoc)
   \<and> (type field = ''radio''
      \<longrightarrow> injectField env pdfDoc (Some i) (field\<lparr>value := JStr []\<rparr>) fnt
          = (let c = normalizeCoordinates field (fst (getSize (pages pdfDoc ! i)))
                       (snd (getSize (pages pdfDoc ! i)))
             in Inr (draw pdfDoc i
                  (DrawRectangle (x c) (y c) (width c) (height c) (rgb 0.1 0.4 0.8) 1 0.1))))
   \<and> injectField env pdfDoc page (field\<lparr>value := JStr []\<rparr>) fnt
       = injectField env pdfDoc page (field\<lparr>value := JNull\<rparr>) fnt
   \<and> injectField env pdfDoc page (field\<lparr>value := JStr []\<rparr>) fnt
       = injectField env pdfDoc page (field\<lparr>value := JUndefined\<rparr>) fnt
   \<and> ((type field = ''signature'' \<or> type field = ''image'') \<and> \<not> startsWith s ''data:''
      \<longrightarrow> injectField env pdfDoc (Some i) (field\<lparr>value := JStr s\<rparr>) fnt = Inr pdfDoc)"
proof -
  have n: "normalizeCoordinates (field\<lparr>value := v\<rparr>) w h = normalizeCoordinates field w h"
    for v w h
    by (simp add: normalizeCoordinates_def)
  have p: "parseBase64Image env (JStr s) = Inr None" if "\<not> startsWith s ''data:''"
    using that by (simp add: parseBase64Image_def)
  have q: "parseBase64Image env (JStr []) = Inr None" "parseBase64Image env JNull = Inr None"
    "parseBase64Image env JUndefined = Inr None"
    by (simp_all add: parseBase64Image_def)
  show ?thesis
    using assms by (simp add: injectField_def n p q Let_def split: option.split)
qed

theorem empty_value_draws_nothing_witness:
  "injectField sample_env sample_doc (Some 1) (placement ''text'' (JNum 1) (JStr [])) Helvetica
     = Inr sample_doc
   \<and> injectField sample_env sample_doc (Some 1) (placement ''radio'' (JNum 1) (JStr [])) Helvetica
     = Inr (draw sample_doc 1 (DrawRectangle 61.2 673.2 183.6 39.6 (rgb 0.1 0.4 0.8) 1 0.1))
   \<and> injectField sample_env sample_doc (Some 1)
        (placement ''image'' (JNum 1) (JStr ''image/png'')) Helvetica
     = Inr sample_doc"
proof -
  have i: "1 < length (pages sample_doc)"
    by (simp add: sample_doc_def)
  have s: "\<not> startsWith ''image/png'' ''data:''"
    by (simp add: startsWith_def)
  show ?thesis
    using empty_value_draws_nothing [OF i, where field = "placement ''text'' (JNum 1) (JStr [])"
         and env = sample_env and fnt = Helvetica and page = None and s = "[]"]
      empty_value_draws_nothing [OF i, where field = "placement ''radio'' (JNum 1) (JStr [])"
         and env = sample_env and fnt = Helvetica and page = None and s = "[]"]
      empty_value_draws_nothing [OF i, where field = "placement ''image'' (JNum 1) (JStr [])"
         and env = sample_env and fnt = Helvetica and page = None and s = "''image/png''"]
    by (simp add: s Let_def normalizeCoordinates_def placement_def sample_doc_def)
qed

section \<open>Hashes\<close>

text \<open>
  Claim C7 says that two runs on the same document and placement list yield the same
  \<open>signedHash\<close>, and that \<open>originalHash\<close> is a function of the document bytes alone. The
  second part holds. The first does not: the library stamps the time of the load on the
  document and writes it out, so the bytes of the signed document, and with them
  \<open>signedHash\<close>, change with the time of the run. What holds (claim C7 as amended): take two
  completed runs on the same document bytes, at any two times, with any file systems, paths,
  document names, output paths and placement lists; their \<open>originalHash\<close> is the same, the
  digest of the document bytes alone; and in each run \<open>signedHash\<close> is the digest of the bytes
  that the run has written to its output path.
\<close>

theorem hashes_of_a_run:
  assumes "fs1 path1 = Some b" and "fs2 path2 = Some b"
    and "injectFields env fs1 path1 name1 ps1 out1 = Inr r1"
    and "injectFields (env\<lparr>clock := t\<rparr>) fs2 path2 name2 ps2 out2 = Inr r2"
  shows "originalHash (audit r1) = sha256 env b
         \<and> originalHash (audit r2) = originalHash (audit r1)
         \<and> (\<exists>pdfBytes. files r1 out1 = Some pdfBytes
                \<and> signedHash (audit r1) = sha256 env pdfBytes)
         \<and> (\<exists>pdfBytes. files r2 out2 = Some pdfBytes
                \<and> signedHash (audit r2) = sha256 env pdfBytes)"
  using assms
  by (auto simp add: injectFields_def Let_def split: option.splits sum.splits if_splits)

theorem hashes_of_a_run_witness:
  "originalHash (audit (projr (injectFields dated_env sample_files ''uploads/a'' ''a.pdf''
       [placement ''text'' (JNum 0) (JStr ''hello'')] ''output/a'')))
     = sha256 dated_env [0x25, 0x50, 0x44, 0x46, 0x2D]
   \<and> originalHash (audit (projr (injectFields (dated_env\<lparr>clock := 7\<rparr>)
         (sample_files(''uploads/b'' \<mapsto> [0x25, 0x50, 0x44, 0x46, 0x2D])) ''uploads/b'' ''b.pdf''
         [placement ''radio'' (JNum 1) (JStr ''checked'')] ''output/b'')))
     = originalHash (audit (projr (injectFields dated_env sample_files ''uploads/a'' ''a.pdf''
         [placement ''text'' (JNum 0) (JStr ''hello'')] ''output/a'')))"
proof -
  have f1: "sample_files ''uploads/a'' = Some [0x25, 0x50, 0x44, 0x46, 0x2D]"
    by (simp add: sample_files_def)
  have f2: "(sample_files(''uploads/b'' \<mapsto> [0x25, 0x50, 0x44, 0x46, 0x2D])) ''uploads/b''
              = Some [0x25, 0x50, 0x44, 0x46, 0x2D]"
    by simp
  obtain r1 where e1: "injectFields dated_env sample_files ''uploads/a'' ''a.pdf''
       [placement ''text'' (JNum 0) (JStr ''hello'')] ''output/a'' = Inr r1"
    by (simp add: dated_env_def sample_simps)
  obtain r2 where e2: "injectFields (dated_env\<lparr>clock := 7\<rparr>)
         (sample_files(''uploads/b'' \<mapsto> [0x25, 0x50, 0x44, 0x46, 0x2D])) ''uploads/b'' ''b.pdf''
         [placement ''radio'' (JNum 1) (JStr ''checked'')] ''output/b'' = Inr r2"
    by (simp add: dated_env_def sample_simps)
  show ?thesis
    using hashes_of_a_run [OF f1 f2 e1 e2]
    by (simp add: e1 e2)
qed

text \<open>
  The same document and the same placement list, loaded at time 0 and at time 1, with a
  serializer that writes the modification date: both runs complete, and their \<open>signedHash\<close>
  differ.
\<close>

theorem signedHash_differs_with_time:
  "\<not> isl (injectFields dated_env sample_files ''uploads/a'' ''a.pdf''
       [placement ''text'' (JNum 0) (JStr ''hello'')] ''output/a'')
   \<and> \<not> isl (injectFields (dated_env\<lparr>clock := 1\<rparr>) sample_files ''uploads/a'' ''a.pdf''
       [placement ''text'' (JNum 0) (JStr ''hello'')] ''output/a'')
   \<and> signedHash (audit (projr (injectFields dated_env sample_files ''uploads/a'' ''a.pdf''
       [placement ''text'' (JNum 0) (JStr ''hello'')] ''output/a''))) = ''350''
   \<and> signedHash (audit (projr (injectFields (dated_env\<lparr>clock := 1\<rparr>) sample_files
       ''uploads/a'' ''a.pdf'' [placement ''text'' (JNum 0) (JStr ''hello'')] ''output/a''))) = ''351''
   \<and> signedHash (audit (projr (injectFields dated_env sample_files ''uploads/a'' ''a.pdf''
       [placement ''text'' (JNum 0) (JStr ''hello'')] ''output/a'')))
     \<noteq> signedHash (audit (projr (injectFields (dated_env\<lparr>clock := 1\<rparr>) sample_files
       ''uploads/a'' ''a.pdf'' [placement ''text'' (JNum 0) (JStr ''hello'')] ''output/a'')))"
  by (simp add: dated_env_def sample_simps)

section \<open>The audit sink\<close>

lemma parseBase64Image_sink [simp]:
  "parseBase64Image (env\<lparr>auditSave := sink\<rparr>) v = parseBase64Image env v"
  by (cases v) (simp_all add: parseBase64Image_def Let_def)

lemma injectField_sink [simp]:
  "injectField (env\<lparr>auditSave := sink\<rparr>) pdfDoc page field fnt
     = injectField env pdfDoc page field fnt"
  by (cases page)
     (simp_all add: injectField_def Let_def
        cong: sum.case_cong option.case_cong jsval.case_cong if_cong)

lemma injectAll_sink [simp]:
  "injectAll (env\<lparr>auditSave := sink\<rparr>) n fnt pdfDoc ps = injectAll env n fnt pdfDoc ps"
  by (induction ps arbitrary: pdfDoc) (simp_all split: sum.splits)

text \<open>
  Claim C8. Take a run that completes, and let the audit sink fail on its entry instead, with
  any message. The run still completes: it returns the same output path, has written the same
  signed document, and hands over the same audit entry; the only difference is its last
  console line, which reports the failure. The failure of the sink is never an error of the
  run.
\<close>

theorem audit_failure_only_logged:
  assumes "injectFields env fs pdfPath name ps outputPath = Inr r"
    and "sink (audit r) = Some msg"
  shows "injectFields (env\<lparr>auditSave := sink\<rparr>) fs pdfPath name ps outputPath
           = Inr (r\<lparr>console :=
                      butlast (console r) @ [''[DB] Failed to save audit log: '' @ msg]\<rparr>)
         \<and> returned r = outputPath
         \<and> (\<exists>pdfBytes. files r outputPath = Some pdfBytes)"
  using assms
  by (auto simp add: injectFields_def logAuditEntry_def Let_def
           split: option.splits sum.splits if_splits)

theorem audit_failure_only_logged_witness:
  "injectFields (sample_env\<lparr>auditSave := (\<lambda>a. Some ''down'')\<rparr>) sample_files
     ''uploads/a'' ''a.pdf'' [placement ''text'' (JNum 0) (JStr ''hello'')] ''output/a''
   = Inr \<lparr> returned = ''output/a'',
           files = sample_files(''output/a'' \<mapsto> [0x25, 0x50, 0x44, 0x46, 0x2D, 1]),
           console = [CHR 0x0A # ''--- AUDIT TRAIL ---'', ''Original PDF Hash: 335'',
                      ''Signed PDF Hash: 343'', ''-------------------'' @ [CHR 0x0A],
                      ''[DB] Failed to save audit log: down''],
           audit = \<lparr> pdfName = ''a.pdf'', originalHash = ''335'', signedHash = ''343'',
                      auditFields = [placement ''text'' (JNum 0) (JStr ''hello'')] \<rparr> \<rparr>"
proof -
  have e: "injectFields sample_env sample_files
     ''uploads/a'' ''a.pdf'' [placement ''text'' (JNum 0) (JStr ''hello'')] ''output/a''
   = Inr \<lparr> returned = ''output/a'',
           files = sample_files(''output/a'' \<mapsto> [0x25, 0x50, 0x44, 0x46, 0x2D, 1]),
           console = [CHR 0x0A # ''--- AUDIT TRAIL ---'', ''Original PDF Hash: 335'',
                      ''Signed PDF Hash: 343'', ''-------------------'' @ [CHR 0x0A],
                      ''[DB] Audit log saved for a.pdf''],
           audit = \<lparr> pdfName = ''a.pdf'', originalHash = ''335'', signedHash = ''343'',
                      auditFields = [placement ''text'' (JNum 0) (JStr ''hello'')] \<rparr> \<rparr>"
    by (simp add: sample_simps)
  have s: "(\<lambda>a. Some ''down'') e = Some ''down''" for e :: "field audit_entry"
    by simp
  show ?thesis
    using audit_failure_only_logged [OF e s] by simp
qed

end
